theory Spec2Isabelle
  imports Complex_Main "HOL-Library.Sublist"
begin

section \<open>Data model of \<^verbatim>\<open>src/app/page.tsx\<close>\<close>

text \<open>
  The component \<^verbatim>\<open>Home\<close> keeps its state in React hooks. A JavaScript number is read
  as a real number here and \<^verbatim>\<open>+\<close> as the exact sum, where the source adds IEEE doubles;
  a hundredth such as 7.3 stands for the double nearest to it. The score arithmetic of the
  source is \<^verbatim>\<open>parseFloat((agentScore + delta).toFixed(2))\<close>, which puts every score back
  on the grid of hundredths after each addition. For a score of moderate size on that grid
  the double sum differs from the exact sum by far less than 0.005, so both round to the
  same hundredth and compare alike with the thresholds. The two part where the score is so
  large that the delta is lost in the double sum (at \<open>10\<^sup>1\<^sup>6\<close> the source adds 0.3 and
  keeps the score), and they can part at a rounding tie for a score off the grid, which
  only local storage edited by hand provides. What is stated about the value of the new
  score is therefore stated for scores between -1000 and 1000, with room for the binary
  rounding of the sum.
  Strings are \<^typ>\<open>string\<close>; the empty string is the only falsy string of JavaScript.
\<close>

record HistoryItem =
  concept :: string
  prompt :: string
  feedback :: string
  scoreChange :: real
  timestamp :: string

datatype mutation_mode = Panic | Hubris

text \<open>The interface \<^verbatim>\<open>MutationLog\<close>; its field \<^verbatim>\<open>timestamp\<close> is \<open>logTimestamp\<close> here,
  since \<open>timestamp\<close> is the field of \<^typ>\<open>HistoryItem\<close>.\<close>

record MutationLog =
  gen :: int
  mode :: mutation_mode
  score :: real
  logTimestamp :: string
  oldInstruction :: string
  newInstruction :: string

record GraveyardItem =
  generation :: int
  finalScore :: real
  causeOfDeath :: string
  livedAt :: string
  bestPrompt :: string
  finalInstruction :: string

text \<open>The hooks of \<^verbatim>\<open>Home\<close> (lines 124-139). \<^verbatim>\<open>activeTab\<close> and \<^verbatim>\<open>selectedLog\<close> only
  choose what is displayed and are left out.\<close>

record AppState =
  apiKey :: string
  userConcept :: string
  generatedPrompt :: string
  isGenerating :: bool
  optimizationState :: "mutation_mode option"
  feedbackGiven :: bool
  copied :: bool
  agentScore :: real
  agentGeneration :: int
  systemInstruction :: string
  history :: "HistoryItem list"
  graveyard :: "GraveyardItem list"
  mutationLog :: "MutationLog list"

definition DEFAULT_SYSTEM_INSTRUCTION :: string where
  "DEFAULT_SYSTEM_INSTRUCTION =
     ''You are an expert Image Prompt Engineer. '' @ [CHR 0x0A] @
     ''Your goal is to take a simple concept and convert it into a highly detailed, artistic, and technical image generation prompt (for Midjourney/Flux/DALL-E).'' @ [CHR 0x0A] @
     ''Focus on lighting, texture, camera angles, and artistic style. '' @ [CHR 0x0A] @
     ''Keep the prompt under 60 words but dense with descriptors.''"

definition STARTING_SCORE :: real where "STARTING_SCORE = 7.0"
definition DEATH_THRESHOLD :: real where "DEATH_THRESHOLD = 5.0"
definition PANIC_THRESHOLD :: real where "PANIC_THRESHOLD = 6.0"
definition HUBRIS_THRESHOLD :: real where "HUBRIS_THRESHOLD = 8.5"

text \<open>The default values of the hooks: the state of a first visit, with nothing in
  local storage.\<close>

definition initialState :: AppState where
  "initialState =
     \<lparr> apiKey = [], userConcept = [], generatedPrompt = [], isGenerating = False,
       optimizationState = None, feedbackGiven = False, copied = False,
       agentScore = STARTING_SCORE, agentGeneration = 1,
       systemInstruction = DEFAULT_SYSTEM_INSTRUCTION,
       history = [], graveyard = [], mutationLog = [] \<rparr>"

section \<open>The environment: clock, network, timers\<close>

text \<open>One reading of the clock, in the three renderings the source asks of
  \<^verbatim>\<open>new Date()\<close>.\<close>

record Date =
  toISOString :: string
  toLocaleDateString :: string
  toLocaleTimeString :: string

text \<open>
  How \<^verbatim>\<open>await fetch(...)\<close> followed by \<^verbatim>\<open>await response.json()\<close> settles:
  \<^item> \<open>Rejected msg\<close>: one of the two throws; \<open>msg\<close> is the \<^verbatim>\<open>message\<close> of what was thrown
    (empty when it has none);
  \<^item> \<open>Error_body msg\<close>: the body parsed and has an \<^verbatim>\<open>error\<close> member, whose
    \<^verbatim>\<open>message\<close> is \<open>msg\<close>;
  \<^item> \<open>Candidates t\<close>: the body parsed, has no \<^verbatim>\<open>error\<close>, and
    \<^verbatim>\<open>data.candidates?.[0]?.content?.parts?.[0]?.text\<close> is \<open>t\<close> (\<open>None\<close> for undefined).
\<close>

datatype fetch_outcome =
    Rejected string
  | Error_body string
  | Candidates "string option"

text \<open>What the code after the \<^verbatim>\<open>await\<close> in \<^verbatim>\<open>optimizeAgentBrain\<close> still reads from the
  call that started it: its parameters, the snapshot of the instruction, and the generation
  of the render whose closure it is.\<close>

record MutationCall =
  call_mode :: mutation_mode
  call_score :: real
  call_gen :: int
  call_oldInstruction :: string

text \<open>The request of \<^verbatim>\<open>generatePrompt\<close>, by its parts (the template strings that
  render them are not modelled).\<close>

record GeneratorRequest =
  req_systemInstruction :: string
  req_score :: real
  req_history :: "(string \<times> string) list"
  req_concept :: string
  req_temperature :: real

text \<open>What a handler does besides setting state. \<open>Fetch_optimizer c ev temp\<close> carries the
  evidence lines (concept and feedback of each relevant history item) and the sampling
  temperature; \<open>SetTimeout_respawn g sc ms\<close> registers the respawn callback, which
  has captured generation \<open>g\<close> and final score \<open>sc\<close>, to run after \<open>ms\<close> milliseconds.\<close>

datatype effect =
    Alert_missing_key
  | Alert_eliminated int real
  | SetTimeout_respawn int real nat
  | Fetch_generator GeneratorRequest
  | Fetch_optimizer MutationCall "(string \<times> string) list" real
  | Console_error

section \<open>Helpers of the language\<close>

text \<open>\<^verbatim>\<open>a || b\<close> on strings.\<close>

definition js_or :: "string \<Rightarrow> string \<Rightarrow> string" where
  "js_or a b = (if a = [] then b else a)"

text \<open>\<^verbatim>\<open>parseFloat(x.toFixed(2))\<close>: \<^verbatim>\<open>toFixed\<close> takes the exact value of \<open>x\<close>, rounds
  its magnitude to the nearest hundredth, the larger one on a tie, and keeps the sign.\<close>

definition toFixed2 :: "real \<Rightarrow> real" where
  "toFixed2 x =
     (if x < 0 then - (of_int \<lfloor>(- x) * 100 + 1 / 2\<rfloor> / 100)
      else of_int \<lfloor>x * 100 + 1 / 2\<rfloor> / 100)"

section \<open>The handlers\<close>

text \<open>
  A handler is a closure of one render: what it reads (\<^verbatim>\<open>agentScore\<close>,
  \<^verbatim>\<open>systemInstruction\<close>, ...) are the values of that render, the argument \<open>r\<close>, while
  its \<^verbatim>\<open>setX(v)\<close> calls update the state \<open>s\<close> that the next render shows. A functional
  update \<^verbatim>\<open>setX(prev => ...)\<close> reads \<open>s\<close>. Each function returns the new state and the
  effects it caused, in order.
\<close>

text \<open>\<^verbatim>\<open>optimizeAgentBrain\<close> up to its \<^verbatim>\<open>await fetch\<close> (lines 141-198).\<close>

definition optimizeAgentBrain ::
  "AppState \<Rightarrow> real \<Rightarrow> HistoryItem list \<Rightarrow> mutation_mode \<Rightarrow> AppState \<Rightarrow> AppState \<times> effect list" where
  "optimizeAgentBrain r currentScore currentHistory m s =
     (if apiKey r = [] then (s, [])
      else
        let relevantHistory =
              filter (\<lambda>h. if m = Panic then scoreChange h < 0 else scoreChange h > 0) currentHistory
        in if length relevantHistory = 0 then (s\<lparr>optimizationState := None\<rparr>, [])
           else (s\<lparr>optimizationState := Some m\<rparr>,
                 [Fetch_optimizer
                    \<lparr> call_mode = m, call_score = currentScore,
                      call_gen = agentGeneration r, call_oldInstruction = systemInstruction r \<rparr>
                    (map (\<lambda>h. (concept h, feedback h)) relevantHistory)
                    (if currentScore > 8 then 0.9 else 0.5)]))"

text \<open>\<^verbatim>\<open>optimizeAgentBrain\<close> from the settled request on (lines 200-218), run against the
  state \<open>s\<close> of that later moment.\<close>

definition optimizeAgentBrain_settled ::
  "MutationCall \<Rightarrow> fetch_outcome \<Rightarrow> Date \<Rightarrow> AppState \<Rightarrow> AppState \<times> effect list" where
  "optimizeAgentBrain_settled c out d s =
     (case out of
        Rejected msg \<Rightarrow> (s\<lparr>optimizationState := None\<rparr>, [Console_error])
      | Error_body msg \<Rightarrow> (s\<lparr>optimizationState := None\<rparr>, [])
      | Candidates None \<Rightarrow> (s\<lparr>optimizationState := None\<rparr>, [])
      | Candidates (Some newInstruction') \<Rightarrow>
          if newInstruction' = [] then (s\<lparr>optimizationState := None\<rparr>, [])
          else (s\<lparr> systemInstruction := newInstruction',
                   mutationLog :=
                     \<lparr> gen = call_gen c, mode = call_mode c, score = call_score c,
                       logTimestamp = toLocaleTimeString d,
                       oldInstruction = call_oldInstruction c,
                       newInstruction = newInstruction' \<rparr> # mutationLog s,
                   optimizationState := None \<rparr>, []))"

text \<open>\<^verbatim>\<open>handleAgentDeath\<close> (lines 261-284): the grave marker, and the timer.\<close>

definition handleAgentDeath ::
  "AppState \<Rightarrow> real \<Rightarrow> HistoryItem list \<Rightarrow> Date \<Rightarrow> AppState \<Rightarrow> AppState \<times> effect list" where
  "handleAgentDeath r finalScore' finalHistory d s =
     (let graveMarker =
            \<lparr> generation = agentGeneration r,
              finalScore = finalScore',
              causeOfDeath =
                (case finalHistory of [] \<Rightarrow> ''Unknown'' | h # _ \<Rightarrow> js_or (feedback h) ''Unknown''),
              livedAt = toLocaleDateString d,
              bestPrompt =
                (case find (\<lambda>h. scoreChange h > 0) finalHistory of
                   None \<Rightarrow> ''None''
                 | Some h \<Rightarrow> js_or (prompt h) ''None''),
              finalInstruction = systemInstruction r \<rparr>
      in (s\<lparr>graveyard := graveMarker # graveyard r\<rparr>,
          [SetTimeout_respawn (agentGeneration r) finalScore' 500]))"

text \<open>The callback of that timer (lines 273-283).\<close>

definition handleAgentDeath_timeout :: "int \<Rightarrow> real \<Rightarrow> AppState \<Rightarrow> AppState \<times> effect list" where
  "handleAgentDeath_timeout g finalScore' s =
     (s\<lparr> agentScore := STARTING_SCORE,
         agentGeneration := agentGeneration s + 1,
         history := [],
         mutationLog := [],
         generatedPrompt := [],
         userConcept := [],
         feedbackGiven := False,
         systemInstruction := DEFAULT_SYSTEM_INSTRUCTION \<rparr>,
      [Alert_eliminated g finalScore'])"

text \<open>The \<^verbatim>\<open>switch\<close> of \<^verbatim>\<open>handleFeedback\<close> (lines 224-233): \<^verbatim>\<open>delta\<close> and
  \<^verbatim>\<open>feedbackText\<close>.\<close>

definition feedback_switch :: "string \<Rightarrow> real \<times> string" where
  "feedback_switch type =
     (if type = ''blocked'' then (- 0.5, ''Blocked by safety filters.'')
      else if type = ''bad'' then (- 0.5, ''Unsatisfactory image.'')
      else if type = ''good'' then (0.3, ''Satisfactory image.'')
      else if type = ''excellent'' then (0.3, ''Exceeded expectations.'')
      else (0, []))"

text \<open>The object \<^verbatim>\<open>newHistoryItem\<close> that \<^verbatim>\<open>handleFeedback\<close> builds (lines 238-244).\<close>

definition newHistoryItem :: "AppState \<Rightarrow> string \<Rightarrow> Date \<Rightarrow> HistoryItem" where
  "newHistoryItem s type d =
     \<lparr> concept = userConcept s, prompt = generatedPrompt s,
       feedback = snd (feedback_switch type),
       scoreChange = fst (feedback_switch type), timestamp = toISOString d \<rparr>"

text \<open>\<^verbatim>\<open>handleFeedback\<close> (lines 221-259). The two \<^verbatim>\<open>if\<close>s after the death branch
  are in sequence, as in the source. The clock is read once for the whole handler: \<open>d\<close>
  serves the timestamp of the item and, in the death branch, the date of the marker. The
  sum \<open>agentScore s + delta\<close> is the exact one (see the note on numbers at the top).\<close>

definition handleFeedback :: "string \<Rightarrow> Date \<Rightarrow> AppState \<Rightarrow> AppState \<times> effect list" where
  "handleFeedback type d s =
     (if feedbackGiven s then (s, [])
      else
        let delta = fst (feedback_switch type);
            newScore = toFixed2 (agentScore s + delta);
            updatedHistory = take 5 (newHistoryItem s type d # history s);
            s1 = s\<lparr>agentScore := newScore, history := updatedHistory, feedbackGiven := True\<rparr>
        in if newScore \<le> DEATH_THRESHOLD then handleAgentDeath s newScore updatedHistory d s1
           else
             let (s2, e2) =
                   (if newScore \<le> PANIC_THRESHOLD \<and> delta < 0
                    then optimizeAgentBrain s newScore updatedHistory Panic s1 else (s1, []));
                 (s3, e3) =
                   (if newScore \<ge> HUBRIS_THRESHOLD \<and> delta > 0
                    then optimizeAgentBrain s newScore updatedHistory Hubris s2 else (s2, []))
             in (s3, e2 @ e3))"

text \<open>\<^verbatim>\<open>generatePrompt\<close> up to its \<^verbatim>\<open>await fetch\<close> (lines 286-318).\<close>

definition generatePrompt :: "AppState \<Rightarrow> AppState \<times> effect list" where
  "generatePrompt s =
     (if apiKey s = [] then (s, [Alert_missing_key])
      else if userConcept s = [] then (s, [])
      else (s\<lparr>isGenerating := True, feedbackGiven := False, copied := False\<rparr>,
            [Fetch_generator
               \<lparr> req_systemInstruction = systemInstruction s,
                 req_score = agentScore s,
                 req_history = map (\<lambda>h. (concept h, feedback h)) (history s),
                 req_concept = userConcept s,
                 req_temperature = (if agentScore s > 8 then 0.9 else 0.5) \<rparr>]))"

text \<open>\<^verbatim>\<open>generatePrompt\<close> from the settled request on (lines 320-328).\<close>

definition generatePrompt_settled :: "fetch_outcome \<Rightarrow> AppState \<Rightarrow> AppState \<times> effect list" where
  "generatePrompt_settled out s =
     (case out of
        Candidates t \<Rightarrow>
          (s\<lparr> generatedPrompt := js_or (case t of None \<Rightarrow> [] | Some x \<Rightarrow> x) ''Error'',
              isGenerating := False \<rparr>, [])
      | Error_body msg \<Rightarrow>
          (s\<lparr> generatedPrompt := ''API Error: '' @ js_or msg ''Unknown error'',
              isGenerating := False \<rparr>, [Console_error])
      | Rejected msg \<Rightarrow>
          (s\<lparr> generatedPrompt := ''API Error: '' @ js_or msg ''Unknown error'',
              isGenerating := False \<rparr>, [Console_error]))"

section \<open>Runs of the component\<close>

text \<open>The events the component reacts to: the two inputs being edited, the two buttons,
  a request settling and the respawn timer firing. React renders again after each event,
  so a click runs the handler of the current render: what its closure reads is the current
  state. A settling or firing event carries what its closure captured when the request or
  the timer was started. A run may hold any such event, also one whose request or timer
  was never started; what holds of all runs holds of the real ones.\<close>

datatype event =
    Change_apiKey string
  | Change_concept string
  | Click_generate
  | Generator_settled fetch_outcome
  | Click_feedback string Date
  | Optimizer_settled MutationCall fetch_outcome Date
  | Timeout_respawn int real

fun step :: "event \<Rightarrow> AppState \<Rightarrow> AppState" where
  "step (Change_apiKey k) s = s\<lparr>apiKey := k\<rparr>"
| "step (Change_concept c) s = s\<lparr>userConcept := c\<rparr>"
| "step Click_generate s = fst (generatePrompt s)"
| "step (Generator_settled out) s = fst (generatePrompt_settled out s)"
| "step (Click_feedback type d) s = fst (handleFeedback type d s)"
| "step (Optimizer_settled c out d) s = fst (optimizeAgentBrain_settled c out d s)"
| "step (Timeout_respawn g sc) s = fst (handleAgentDeath_timeout g sc s)"

fun run :: "event list \<Rightarrow> AppState \<Rightarrow> AppState" where
  "run [] s = s"
| "run (e # es) s = run es (step e s)"

text \<open>Two observers of a run, which the source does not compute: the history items of the
  feedback clicks that the run accepted since its last respawn, newest first, on top of
  \<open>acc\<close>; and the number of feedback clicks the run accepted in all.\<close>

fun acceptedFeedback :: "event list \<Rightarrow> AppState \<Rightarrow> HistoryItem list \<Rightarrow> HistoryItem list" where
  "acceptedFeedback [] s acc = acc"
| "acceptedFeedback (e # es) s acc =
     acceptedFeedback es (step e s)
       (case e of
          Click_feedback type d \<Rightarrow> if feedbackGiven s then acc else newHistoryItem s type d # acc
        | Timeout_respawn g sc \<Rightarrow> []
        | _ \<Rightarrow> acc)"

fun totalFeedbackCount :: "event list \<Rightarrow> AppState \<Rightarrow> nat" where
  "totalFeedbackCount [] s = 0"
| "totalFeedbackCount (e # es) s =
     (case e of Click_feedback type d \<Rightarrow> if feedbackGiven s then 0 else 1 | _ \<Rightarrow> 0)
       + totalFeedbackCount es (step e s)"




section \<open>Concrete inputs\<close>

definition someDate :: Date where
  "someDate =
     \<lparr> toISOString = ''2025-01-01T12:00:00.000Z'', toLocaleDateString = ''1/1/2025'',
       toLocaleTimeString = ''12:00:00 PM'' \<rparr>"

text \<open>A first visit after the key and a concept were typed and one prompt came back.\<close>

definition readyState :: AppState where
  "readyState =
     initialState\<lparr>apiKey := ''key'', userConcept := ''a cat'', generatedPrompt := ''A cat at dusk''\<rparr>"

text \<open>One round of the user: ask for a prompt, receive it, press Poor.\<close>

definition poorRound :: "event list" where
  "poorRound =
     [Click_generate, Generator_settled (Candidates (Some ''A cat at dusk'')),
      Click_feedback ''bad'' someDate]"

text \<open>The same round ending with Good.\<close>

definition goodRound :: "event list" where
  "goodRound =
     [Click_generate, Generator_settled (Candidates (Some ''A cat at dusk'')),
      Click_feedback ''good'' someDate]"

text \<open>A first visit with six prompts judged Good and Poor in turn: the score goes
  7.3, 6.8, 7.1, 6.6, 6.9, 6.4 and nothing else happens.\<close>

definition sixRounds :: "event list" where
  "sixRounds =
     [Change_apiKey ''key'', Change_concept ''a cat''] @
     goodRound @ poorRound @ goodRound @ poorRound @ goodRound @ poorRound"

text \<open>What the panic request that a Poor at the given score starts has captured in the
  first generation, and that request failing on the network.\<close>

definition panicCall :: "real \<Rightarrow> MutationCall" where
  "panicCall sc =
     \<lparr> call_mode = Panic, call_score = sc, call_gen = 1,
       call_oldInstruction = DEFAULT_SYSTEM_INSTRUCTION \<rparr>"

definition panicFails :: "real \<Rightarrow> event" where
  "panicFails sc = Optimizer_settled (panicCall sc) (Rejected ''Failed to fetch'') someDate"

text \<open>A first visit: three prompts, each judged Poor (7.0, 6.5, 6.0, 5.5), the two panic
  requests failing, and a fourth prompt on the screen; then Poor again (5.0), which is the
  death; then the respawn timer of that death.\<close>

definition threePoorAndPrompt :: "event list" where
  "threePoorAndPrompt =
     [Change_apiKey ''key'', Change_concept ''a cat''] @
     poorRound @
     poorRound @ [panicFails 6.0] @
     poorRound @ [panicFails 5.5] @
     [Click_generate, Generator_settled (Candidates (Some ''A cat at dusk''))]"

definition fourPoor :: "event list" where
  "fourPoor = threePoorAndPrompt @ [Click_feedback ''bad'' someDate]"

definition fourPoorThenRespawn :: "event list" where
  "fourPoorThenRespawn = fourPoor @ [Timeout_respawn 1 5.0]"

text \<open>The state that Poor at 6.2 leaves: a panic request is in flight.\<close>

definition busyState :: AppState where
  "busyState = fst (handleFeedback ''bad'' someDate (readyState\<lparr>agentScore := 6.2\<rparr>))"

text \<open>The state that Good at 7.0 leaves: the guard is closed.\<close>

definition judgedState :: AppState where
  "judgedState = fst (handleFeedback ''good'' someDate readyState)"

text \<open>The history item of a Good pressed while no prompt and no concept were there.\<close>

definition unpromptedGood :: HistoryItem where
  "unpromptedGood =
     \<lparr> concept = [], prompt = [], feedback = ''Satisfactory image.'', scoreChange = 0.3,
       timestamp = ''2025-01-01T12:00:00.000Z'' \<rparr>"

text \<open>The four Poor, and before the respawn timer fires one more prompt, judged with a
  label outside the switch.\<close>

definition poorThenNeutral :: "event list" where
  "poorThenNeutral =
     fourPoor @
     [Click_generate, Generator_settled (Candidates (Some ''A cat at dusk'')),
      Click_feedback ''neutral'' someDate]"






section \<open>Basic facts about the handlers\<close>

subsection \<open>The switch and the rounding\<close>

lemmas thresholds =
  STARTING_SCORE_def DEATH_THRESHOLD_def PANIC_THRESHOLD_def HUBRIS_THRESHOLD_def

lemma feedback_switch_blocked:
  "feedback_switch ''blocked'' = (- 0.5, ''Blocked by safety filters.'')"
  by (simp add: feedback_switch_def)

lemma feedback_switch_bad: "feedback_switch ''bad'' = (- 0.5, ''Unsatisfactory image.'')"
  by (simp add: feedback_switch_def)

lemma feedback_switch_good: "feedback_switch ''good'' = (0.3, ''Satisfactory image.'')"
  by (simp add: feedback_switch_def)

lemma feedback_switch_excellent:
  "feedback_switch ''excellent'' = (0.3, ''Exceeded expectations.'')"
  by (simp add: feedback_switch_def)

lemma feedback_switch_default:
  "type \<notin> {''blocked'', ''bad'', ''good'', ''excellent''} \<Longrightarrow> feedback_switch type = (0, [])"
  by (simp add: feedback_switch_def)

text \<open>A score on the grid of hundredths is a fixed point of the rounding.\<close>

lemma toFixed2_hundredths: "toFixed2 (of_int k / 100) = of_int k / 100"
  by (simp add: toFixed2_def)

lemma toFixed2_grid_down:
  assumes "x = of_int k / 100" shows "toFixed2 (x + (- 0.5)) = x - 0.5"
proof -
  have e: "x + (- 0.5) = of_int (k - 50) / 100" using assms by (simp add: field_simps)
  have "toFixed2 (x + (- 0.5)) = x + (- 0.5)" by (simp only: e toFixed2_hundredths)
  then show ?thesis by simp
qed

lemma toFixed2_grid_up:
  assumes "x = of_int k / 100" shows "toFixed2 (x + 0.3) = x + 0.3"
proof -
  have e: "x + 0.3 = of_int (k + 30) / 100" using assms by (simp add: field_simps)
  show ?thesis by (simp only: e toFixed2_hundredths)
qed

text \<open>\<^const>\<open>toFixed2\<close> is rounding to the nearest hundredth: its value is a whole number
  of hundredths, it is the one nearest to the argument, and of two equally near ones it is
  the one farther from zero.\<close>

lemma toFixed2_on_grid: "\<exists>n. toFixed2 x = of_int n / 100"
proof (cases "x < 0")
  case True
  have "toFixed2 x = of_int (- \<lfloor>(- x) * 100 + 1 / 2\<rfloor>) / 100"
    using True by (simp add: toFixed2_def)
  then show ?thesis by blast
next
  case False
  then have "toFixed2 x = of_int \<lfloor>x * 100 + 1 / 2\<rfloor> / 100"
    by (simp add: toFixed2_def)
  then show ?thesis by blast
qed

lemma toFixed2_nearest:
  "(0 \<le> x \<longrightarrow> toFixed2 x - 1 / 200 \<le> x \<and> x < toFixed2 x + 1 / 200) \<and>
   (x < 0 \<longrightarrow> toFixed2 x - 1 / 200 < x \<and> x \<le> toFixed2 x + 1 / 200)"
proof (intro conjI impI)
  assume p: "0 \<le> x"
  define n where "n = \<lfloor>x * 100 + 1 / 2\<rfloor>"
  have t: "toFixed2 x = of_int n / 100" using p by (simp add: toFixed2_def n_def)
  have "of_int n \<le> x * 100 + 1 / 2" "x * 100 + 1 / 2 < of_int n + 1"
    unfolding n_def by linarith+
  then show "toFixed2 x - 1 / 200 \<le> x" "x < toFixed2 x + 1 / 200"
    unfolding t by (simp_all add: field_simps)
next
  assume q: "x < 0"
  define n where "n = \<lfloor>(- x) * 100 + 1 / 2\<rfloor>"
  have t: "toFixed2 x = - (of_int n / 100)" using q by (simp add: toFixed2_def n_def)
  have "of_int n \<le> (- x) * 100 + 1 / 2" "(- x) * 100 + 1 / 2 < of_int n + 1"
    unfolding n_def by linarith+
  then show "toFixed2 x - 1 / 200 < x" "x \<le> toFixed2 x + 1 / 200"
    unfolding t by (simp_all add: field_simps)
qed

lemma toFixed2_within: "\<bar>toFixed2 x - x\<bar> \<le> 1 / 200"
proof (cases "0 \<le> x")
  case True
  then have "toFixed2 x - 1 / 200 \<le> x \<and> x < toFixed2 x + 1 / 200"
    using toFixed2_nearest[of x] by blast
  then show ?thesis by linarith
next
  case False
  then have "toFixed2 x - 1 / 200 < x \<and> x \<le> toFixed2 x + 1 / 200"
    using toFixed2_nearest[of x] by simp
  then show ?thesis by linarith
qed

subsection \<open>What each handler leaves alone\<close>

lemma optimizeAgentBrain_fields:
  "agentScore (fst (optimizeAgentBrain r sc h m s)) = agentScore s"
  "history (fst (optimizeAgentBrain r sc h m s)) = history s"
  "feedbackGiven (fst (optimizeAgentBrain r sc h m s)) = feedbackGiven s"
  "graveyard (fst (optimizeAgentBrain r sc h m s)) = graveyard s"
  "agentGeneration (fst (optimizeAgentBrain r sc h m s)) = agentGeneration s"
  "systemInstruction (fst (optimizeAgentBrain r sc h m s)) = systemInstruction s"
  "mutationLog (fst (optimizeAgentBrain r sc h m s)) = mutationLog s"
  "generatedPrompt (fst (optimizeAgentBrain r sc h m s)) = generatedPrompt s"
  "userConcept (fst (optimizeAgentBrain r sc h m s)) = userConcept s"
  "apiKey (fst (optimizeAgentBrain r sc h m s)) = apiKey s"
  by (simp_all add: optimizeAgentBrain_def Let_def)

lemma handleAgentDeath_fields:
  "agentScore (fst (handleAgentDeath r sc h d s)) = agentScore s"
  "history (fst (handleAgentDeath r sc h d s)) = history s"
  "feedbackGiven (fst (handleAgentDeath r sc h d s)) = feedbackGiven s"
  "agentGeneration (fst (handleAgentDeath r sc h d s)) = agentGeneration s"
  "systemInstruction (fst (handleAgentDeath r sc h d s)) = systemInstruction s"
  "mutationLog (fst (handleAgentDeath r sc h d s)) = mutationLog s"
  "generatedPrompt (fst (handleAgentDeath r sc h d s)) = generatedPrompt s"
  "userConcept (fst (handleAgentDeath r sc h d s)) = userConcept s"
  "apiKey (fst (handleAgentDeath r sc h d s)) = apiKey s"
  by (simp_all add: handleAgentDeath_def Let_def)

text \<open>The tail of \<^const>\<open>handleFeedback\<close> as one chain of alternatives: the panic and the
  hubris test cannot both succeed, since a score is not at most 6 and at least 8.5.\<close>

lemma handleFeedback_paths:
  assumes "\<not> feedbackGiven s"
  shows "handleFeedback type d s =
     (let delta = fst (feedback_switch type);
          newScore = toFixed2 (agentScore s + delta);
          updatedHistory = take 5 (newHistoryItem s type d # history s);
          s1 = s\<lparr>agentScore := newScore, history := updatedHistory, feedbackGiven := True\<rparr>
      in if newScore \<le> DEATH_THRESHOLD then handleAgentDeath s newScore updatedHistory d s1
         else if newScore \<le> PANIC_THRESHOLD \<and> delta < 0
              then optimizeAgentBrain s newScore updatedHistory Panic s1
         else if newScore \<ge> HUBRIS_THRESHOLD \<and> delta > 0
              then optimizeAgentBrain s newScore updatedHistory Hubris s1
         else (s1, []))"
proof -
  define delta where "delta = fst (feedback_switch type)"
  define newScore where "newScore = toFixed2 (agentScore s + delta)"
  consider (death) "newScore \<le> 5"
    | (panic) "5 < newScore" "newScore \<le> 6" "delta < 0"
    | (hubris) "5 < newScore" "17 / 2 \<le> newScore" "0 < delta"
    | (stable) "5 < newScore" "\<not> (newScore \<le> 6 \<and> delta < 0)"
        "\<not> (17 / 2 \<le> newScore \<and> 0 < delta)"
    by linarith
  then show ?thesis
  proof cases
    case death
    then show ?thesis using assms
      by (simp add: handleFeedback_def thresholds Let_def delta_def newScore_def)
  next
    case panic
    then have "\<not> 17 / 2 \<le> newScore" by simp
    with panic show ?thesis using assms
      by (simp add: handleFeedback_def thresholds Let_def delta_def newScore_def
          split: prod.splits)
  next
    case hubris
    then have "\<not> newScore \<le> 6" by simp
    with hubris show ?thesis using assms
      by (simp add: handleFeedback_def thresholds Let_def delta_def newScore_def
          split: prod.splits)
  next
    case stable
    then show ?thesis using assms
      by (auto simp add: handleFeedback_def thresholds Let_def delta_def newScore_def)
  qed
qed

lemma handleFeedback_fields:
  assumes "\<not> feedbackGiven s"
  shows "agentScore (fst (handleFeedback type d s)) =
           toFixed2 (agentScore s + fst (feedback_switch type))"
    and "history (fst (handleFeedback type d s)) = take 5 (newHistoryItem s type d # history s)"
    and "feedbackGiven (fst (handleFeedback type d s))"
    and "agentGeneration (fst (handleFeedback type d s)) = agentGeneration s"
    and "systemInstruction (fst (handleFeedback type d s)) = systemInstruction s"
    and "mutationLog (fst (handleFeedback type d s)) = mutationLog s"
    and "generatedPrompt (fst (handleFeedback type d s)) = generatedPrompt s"
    and "userConcept (fst (handleFeedback type d s)) = userConcept s"
    and "apiKey (fst (handleFeedback type d s)) = apiKey s"
  by (simp_all add: handleFeedback_paths[OF assms] Let_def optimizeAgentBrain_fields
      handleAgentDeath_fields)

lemma feedbackGiven_handleFeedback: "feedbackGiven (fst (handleFeedback type d s))"
  by (cases "feedbackGiven s") (simp_all add: handleFeedback_fields, simp add: handleFeedback_def)

subsection \<open>The concrete states\<close>

lemma readyState_fields:
  "\<not> feedbackGiven readyState" "apiKey readyState = ''key''" "userConcept readyState = ''a cat''"
  "generatedPrompt readyState = ''A cat at dusk''" "agentScore readyState = 7"
  "history readyState = []" "agentGeneration readyState = 1"
  "systemInstruction readyState = DEFAULT_SYSTEM_INSTRUCTION"
  "graveyard readyState = []" "mutationLog readyState = []"
  "optimizationState readyState = None"
  by (simp_all add: readyState_def initialState_def STARTING_SCORE_def)

lemma busyState_fields:
  "optimizationState busyState = Some Panic" "feedbackGiven busyState"
  "apiKey busyState = ''key''" "userConcept busyState = ''a cat''"
  "agentScore busyState = 5.7" "systemInstruction busyState = DEFAULT_SYSTEM_INSTRUCTION"
  "history busyState =
     [\<lparr> concept = ''a cat'', prompt = ''A cat at dusk'', feedback = ''Unsatisfactory image.'',
         scoreChange = - 0.5, timestamp = ''2025-01-01T12:00:00.000Z'' \<rparr>]"
  "\<not> isGenerating busyState" "mutationLog busyState = []"
proof -
  have h: "\<not> feedbackGiven (readyState\<lparr>agentScore := 6.2\<rparr>)"
    by (simp add: readyState_fields)
  have g: "\<not> isGenerating readyState" by (simp add: readyState_def initialState_def)
  show "optimizationState busyState = Some Panic" "feedbackGiven busyState"
  "apiKey busyState = ''key''" "userConcept busyState = ''a cat''"
  "agentScore busyState = 5.7" "systemInstruction busyState = DEFAULT_SYSTEM_INSTRUCTION"
  "history busyState =
     [\<lparr> concept = ''a cat'', prompt = ''A cat at dusk'', feedback = ''Unsatisfactory image.'',
         scoreChange = - 0.5, timestamp = ''2025-01-01T12:00:00.000Z'' \<rparr>]"
  "\<not> isGenerating busyState" "mutationLog busyState = []"
    unfolding busyState_def handleFeedback_paths[OF h]
    by (simp_all add: Let_def feedback_switch_bad toFixed2_def thresholds
        readyState_fields g newHistoryItem_def optimizeAgentBrain_def someDate_def)
qed

subsection \<open>What a mutation request captures\<close>

lemma optimizeAgentBrain_captures:
  assumes "optimizeAgentBrain r sc h m s = (s1, [Fetch_optimizer c ev temp])"
  shows "c = \<lparr> call_mode = m, call_score = sc, call_gen = agentGeneration r,
               call_oldInstruction = systemInstruction r \<rparr>"
  using assms by (simp add: optimizeAgentBrain_def Let_def split: if_splits)

lemma judgedState_fields:
  "feedbackGiven judgedState" "apiKey judgedState = ''key''" "userConcept judgedState = ''a cat''"
  "agentScore judgedState = 7.3"
  "history judgedState =
     [\<lparr> concept = ''a cat'', prompt = ''A cat at dusk'', feedback = ''Satisfactory image.'',
         scoreChange = 0.3, timestamp = ''2025-01-01T12:00:00.000Z'' \<rparr>]"
proof -
  have h: "\<not> feedbackGiven readyState" by (simp add: readyState_fields)
  show "feedbackGiven judgedState" "apiKey judgedState = ''key''" "userConcept judgedState = ''a cat''"
  "agentScore judgedState = 7.3"
  "history judgedState =
     [\<lparr> concept = ''a cat'', prompt = ''A cat at dusk'', feedback = ''Satisfactory image.'',
         scoreChange = 0.3, timestamp = ''2025-01-01T12:00:00.000Z'' \<rparr>]"
    unfolding judgedState_def
    by (simp_all add: handleFeedback_fields[OF h] feedback_switch_good toFixed2_def
        readyState_fields newHistoryItem_def someDate_def)
qed

subsection \<open>The history along a run\<close>

text \<open>The buffer is the five-element prefix of the list of accepted items; every step keeps
  that relation.\<close>

lemma history_other_steps:
  "history (fst (generatePrompt s)) = history s"
  "history (fst (generatePrompt_settled out s)) = history s"
  "history (fst (optimizeAgentBrain_settled c out d s)) = history s"
  "history (fst (handleAgentDeath_timeout g sc s)) = []"
  by (simp_all add: generatePrompt_def generatePrompt_settled_def optimizeAgentBrain_settled_def
      handleAgentDeath_timeout_def split: fetch_outcome.splits option.splits)

lemma take5_Cons_take5: "take 5 (x # take 5 xs) = take 5 (x # xs)"
  by (simp add: take_Cons')

lemma history_step:
  assumes "history s = take 5 acc"
  shows "history (step e s) =
     take 5 (case e of
          Click_feedback type d \<Rightarrow> if feedbackGiven s then acc else newHistoryItem s type d # acc
        | Timeout_respawn g sc \<Rightarrow> []
        | _ \<Rightarrow> acc)"
proof (cases e)
  case (Click_feedback type d)
  show ?thesis
  proof (cases "feedbackGiven s")
    case True
    then show ?thesis using assms Click_feedback by (simp add: handleFeedback_def)
  next
    case False
    then show ?thesis using assms Click_feedback
      by (simp only: step.simps event.case if_False handleFeedback_fields(2)[OF False]
          take5_Cons_take5)
  qed
qed (simp_all add: assms history_other_steps)

lemma history_run:
  "history s = take 5 acc \<Longrightarrow> history (run es s) = take 5 (acceptedFeedback es s acc)"
proof (induction es arbitrary: s acc)
  case Nil
  then show ?case by simp
next
  case (Cons e es)
  show ?case
    unfolding run.simps acceptedFeedback.simps
    by (rule Cons.IH, rule history_step, rule Cons.prems)
qed

subsection \<open>The graveyard along a run\<close>

lemma graveyard_other_steps:
  "graveyard (fst (generatePrompt s)) = graveyard s"
  "graveyard (fst (generatePrompt_settled out s)) = graveyard s"
  "graveyard (fst (optimizeAgentBrain_settled c out d s)) = graveyard s"
  "graveyard (fst (handleAgentDeath_timeout g sc s)) = graveyard s"
  by (simp_all add: generatePrompt_def generatePrompt_settled_def optimizeAgentBrain_settled_def
      handleAgentDeath_timeout_def split: fetch_outcome.splits option.splits)

lemma graveyard_handleFeedback:
  "graveyard (fst (handleFeedback type d s)) =
     (if \<not> feedbackGiven s \<and> toFixed2 (agentScore s + fst (feedback_switch type)) \<le> 5
      then \<lparr> generation = agentGeneration s,
             finalScore = toFixed2 (agentScore s + fst (feedback_switch type)),
             causeOfDeath = js_or (snd (feedback_switch type)) ''Unknown'',
             livedAt = toLocaleDateString d,
             bestPrompt =
               (case find (\<lambda>h. scoreChange h > 0) (take 5 (newHistoryItem s type d # history s)) of
                  None \<Rightarrow> ''None''
                | Some h \<Rightarrow> js_or (prompt h) ''None''),
             finalInstruction = systemInstruction s \<rparr> # graveyard s
      else graveyard s)"
proof (cases "feedbackGiven s")
  case True
  then show ?thesis by (simp add: handleFeedback_def)
next
  case False
  show ?thesis
    by (simp add: False handleFeedback_paths[OF False] Let_def thresholds optimizeAgentBrain_fields
        handleAgentDeath_def newHistoryItem_def)
qed

lemma graveyard_step: "suffix (graveyard s) (graveyard (step e s))"
  by (cases e) (simp_all add: graveyard_other_steps graveyard_handleFeedback suffix_ConsI)

lemma graveyard_run: "suffix (graveyard s) (graveyard (run es s))"
proof (induction es arbitrary: s)
  case Nil
  show ?case by simp
next
  case (Cons e es)
  have "suffix (graveyard s) (graveyard (step e s))" by (rule graveyard_step)
  also have "suffix (graveyard (step e s)) (graveyard (run es (step e s)))" by (rule Cons.IH)
  finally show ?case by simp
qed

subsection \<open>The generation counter along a run\<close>



subsection \<open>The guard along a run\<close>



subsection \<open>The prompt after a respawn\<close>



section \<open>Reactions to a feedback\<close>

text \<open>
  Claim C1. An accepted feedback runs exactly one path, chosen by the new score and the
  delta just applied: at a new score of 5.0 or less the death path
  (\<^const>\<open>handleAgentDeath\<close>) and nothing else; otherwise, at 6.0 or less after a negative
  delta, the panic call of \<^const>\<open>optimizeAgentBrain\<close>; otherwise, at 8.5 or more after a
  positive delta, its hubris call; otherwise nothing beyond the three state updates.
\<close>

theorem one_reactive_path_per_feedback:
  assumes "\<not> feedbackGiven s"
  shows "handleFeedback type d s =
     (let delta = fst (feedback_switch type);
          newScore = toFixed2 (agentScore s + delta);
          updatedHistory = take 5 (newHistoryItem s type d # history s);
          s1 = s\<lparr>agentScore := newScore, history := updatedHistory, feedbackGiven := True\<rparr>
      in if newScore \<le> 5.0 then handleAgentDeath s newScore updatedHistory d s1
         else if newScore \<le> 6.0 \<and> delta < 0
              then optimizeAgentBrain s newScore updatedHistory Panic s1
         else if newScore \<ge> 8.5 \<and> delta > 0
              then optimizeAgentBrain s newScore updatedHistory Hubris s1
         else (s1, []))"
  using handleFeedback_paths[OF assms, of type d] unfolding thresholds .

text \<open>Poor at 6.2 starts a panic request, Great at 8.3 a hubris request, Blocked at 5.3
  sets the respawn timer, Poor at 7.0 does nothing more.\<close>

theorem one_reactive_path_per_feedback_witness:
  "\<not> feedbackGiven (readyState\<lparr>agentScore := 6.2\<rparr>) \<and>
   snd (handleFeedback ''bad'' someDate (readyState\<lparr>agentScore := 6.2\<rparr>)) =
     [Fetch_optimizer
        \<lparr> call_mode = Panic, call_score = 5.7, call_gen = 1,
          call_oldInstruction = DEFAULT_SYSTEM_INSTRUCTION \<rparr>
        [(''a cat'', ''Unsatisfactory image.'')] 0.5] \<and>
   snd (handleFeedback ''excellent'' someDate (readyState\<lparr>agentScore := 8.3\<rparr>)) =
     [Fetch_optimizer
        \<lparr> call_mode = Hubris, call_score = 8.6, call_gen = 1,
          call_oldInstruction = DEFAULT_SYSTEM_INSTRUCTION \<rparr>
        [(''a cat'', ''Exceeded expectations.'')] 0.9] \<and>
   snd (handleFeedback ''blocked'' someDate (readyState\<lparr>agentScore := 5.3\<rparr>)) =
     [SetTimeout_respawn 1 4.8 500] \<and>
   snd (handleFeedback ''bad'' someDate readyState) = []"
proof -
  have h: "\<not> feedbackGiven (readyState\<lparr>agentScore := x\<rparr>)" for x
    by (simp add: readyState_fields)
  have h0: "\<not> feedbackGiven readyState" by (simp add: readyState_fields)
  show ?thesis
    using h[of "6.2"]
      one_reactive_path_per_feedback[OF h[of "6.2"], of "''bad''" someDate]
      one_reactive_path_per_feedback[OF h[of "8.3"], of "''excellent''" someDate]
      one_reactive_path_per_feedback[OF h[of "5.3"], of "''blocked''" someDate]
      one_reactive_path_per_feedback[OF h0, of "''bad''" someDate]
    by (simp add: Let_def feedback_switch_bad feedback_switch_excellent feedback_switch_blocked
        toFixed2_def readyState_fields
        newHistoryItem_def optimizeAgentBrain_def handleAgentDeath_def)
qed

section \<open>One feedback for each prompt\<close>




section \<open>The score after a feedback\<close>

text \<open>
  Claim C2. For a score between -1000 and 1000, a feedback with one of the four labels of
  the source (\<open>blocked\<close> and \<open>bad\<close>, the button Poor: -0.5; \<open>good\<close> and \<open>excellent\<close>:
  +0.3), accepted for the pending prompt, sets the score to the old score plus the delta
  of the label, rounded to two decimals: the new score is a whole number of hundredths and
  lies within 0.005 of the sum. The margin of \<open>10\<^sup>-\<^sup>9\<close> is room for the binary
  rounding of the sum in the source, which in this range is far smaller. Nothing clamps
  the score: from a score of whole hundredths the new score is the sum itself, wherever
  it lies, also above 10 and below 0.
\<close>

theorem feedback_score_update:
  assumes "\<not> feedbackGiven s" and "\<bar>agentScore s\<bar> \<le> 1000"
    and "(type, delta) \<in>
           {(''blocked'', - 0.5), (''bad'', - 0.5), (''good'', 0.3), (''excellent'', 0.3)}"
  shows "(\<exists>n. agentScore (fst (handleFeedback type d s)) = of_int n / 100) \<and>
         \<bar>agentScore (fst (handleFeedback type d s)) - (agentScore s + delta)\<bar>
           \<le> 1 / 200 + 1 / 10 ^ 9 \<and>
         (\<forall>k. agentScore s = of_int k / 100 \<longrightarrow>
              agentScore (fst (handleFeedback type d s)) = agentScore s + delta)"
proof -
  have sw: "fst (feedback_switch type) = delta"
    using assms(3)
    by (auto simp add: feedback_switch_blocked feedback_switch_bad feedback_switch_good
        feedback_switch_excellent)
  have new: "agentScore (fst (handleFeedback type d s)) = toFixed2 (agentScore s + delta)"
    by (simp add: handleFeedback_fields(1)[OF assms(1)] sw)
  have grid: "\<exists>n. toFixed2 (agentScore s + delta) = of_int n / 100"
    by (rule toFixed2_on_grid)
  have near: "\<bar>toFixed2 (agentScore s + delta) - (agentScore s + delta)\<bar> \<le> 1 / 200 + 1 / 10 ^ 9"
    using toFixed2_within[of "agentScore s + delta"] by simp
  have exact: "toFixed2 (agentScore s + delta) = agentScore s + delta"
    if "agentScore s = of_int k / 100" for k
  proof -
    have "delta = - 0.5 \<or> delta = 0.3" using assms(3) by auto
    then show ?thesis
    proof
      assume e: "delta = - 0.5"
      show ?thesis unfolding e using toFixed2_grid_down[OF that] by simp
    next
      assume e: "delta = 0.3"
      show ?thesis unfolding e by (rule toFixed2_grid_up[OF that])
    qed
  qed
  show ?thesis unfolding new using grid near exact by blast
qed

text \<open>Poor at 7.0 gives 6.5; Good at 9.9 gives 10.2; Blocked at 0.2 gives -0.3; Good at
  7.004 gives 7.3, the hundredth nearest to 7.304.\<close>

theorem feedback_score_update_witness:
  "\<not> feedbackGiven readyState \<and>
   agentScore (fst (handleFeedback ''bad'' someDate readyState)) = 6.5 \<and>
   agentScore (fst (handleFeedback ''good'' someDate (readyState\<lparr>agentScore := 9.9\<rparr>))) = 10.2 \<and>
   agentScore (fst (handleFeedback ''blocked'' someDate (readyState\<lparr>agentScore := 0.2\<rparr>))) = - 0.3 \<and>
   \<bar>agentScore (fst (handleFeedback ''good'' someDate (readyState\<lparr>agentScore := 7.004\<rparr>)))
      - 7.304\<bar> \<le> 1 / 200 + 1 / 10 ^ 9 \<and>
   agentScore (fst (handleFeedback ''good'' someDate (readyState\<lparr>agentScore := 7.004\<rparr>))) = 7.3"
proof -
  have h: "\<not> feedbackGiven (readyState\<lparr>agentScore := x\<rparr>)" for x
    by (simp add: readyState_fields)
  have h0: "\<not> feedbackGiven readyState" by (simp add: readyState_fields)
  have b0: "\<bar>agentScore readyState\<bar> \<le> 1000" by (simp add: readyState_fields)
  have b: "\<bar>agentScore (readyState\<lparr>agentScore := x\<rparr>)\<bar> \<le> 1000" if "\<bar>x\<bar> \<le> 1000" for x
    using that by simp
  have m1: "(''bad'', - 0.5) \<in>
              {(''blocked'', - 0.5), (''bad'', - 0.5), (''good'', 0.3), (''excellent'', 0.3 :: real)}"
    and m2: "(''good'', 0.3) \<in>
              {(''blocked'', - 0.5), (''bad'', - 0.5), (''good'', 0.3), (''excellent'', 0.3 :: real)}"
    and m3: "(''blocked'', - 0.5) \<in>
              {(''blocked'', - 0.5), (''bad'', - 0.5), (''good'', 0.3), (''excellent'', 0.3 :: real)}"
    by simp_all
  have t1: "agentScore (fst (handleFeedback ''bad'' someDate readyState)) = 6.5"
    using feedback_score_update[OF h0 b0 m1, of someDate] by (simp add: readyState_fields)
  have t2: "agentScore (fst (handleFeedback ''good'' someDate (readyState\<lparr>agentScore := 9.9\<rparr>))) = 10.2"
    using feedback_score_update[OF h[of "9.9"] b[of "9.9"] m2, of someDate] by simp
  have t3: "agentScore (fst (handleFeedback ''blocked'' someDate (readyState\<lparr>agentScore := 0.2\<rparr>))) = - 0.3"
    using feedback_score_update[OF h[of "0.2"] b[of "0.2"] m3, of someDate] by simp
  have t4: "\<bar>agentScore (fst (handleFeedback ''good'' someDate (readyState\<lparr>agentScore := 7.004\<rparr>)))
      - 7.304\<bar> \<le> 1 / 200 + 1 / 10 ^ 9"
    using feedback_score_update[OF h[of "7.004"] b[of "7.004"] m2, of someDate] by simp
  have t5: "agentScore (fst (handleFeedback ''good'' someDate (readyState\<lparr>agentScore := 7.004\<rparr>))) = 7.3"
    by (simp add: handleFeedback_fields(1)[OF h] feedback_switch_good toFixed2_def)
  show ?thesis using h0 t1 t2 t3 t4 t5 by blast
qed

section \<open>Death and respawn\<close>




section \<open>A label outside the switch\<close>

text \<open>
  Claim C4, as stated: a feedback whose label is none of the four is refused, and score,
  history and feedback guard stay as they were. The \<^verbatim>\<open>default\<close> branch of the switch only
  sets the delta to 0; the handler then goes on. On a first visit with one prompt shown,
  the label \<open>neutral\<close> puts an item into the empty history and sets
  \<^verbatim>\<open>feedbackGiven\<close>.
\<close>

theorem unknown_label_counterexample:
  "''neutral'' \<notin> {''blocked'', ''bad'', ''good'', ''excellent''} \<and>
   \<not> feedbackGiven readyState \<and> history readyState = [] \<and>
   feedbackGiven (fst (handleFeedback ''neutral'' someDate readyState)) \<and>
   history (fst (handleFeedback ''neutral'' someDate readyState)) =
     [\<lparr> concept = ''a cat'', prompt = ''A cat at dusk'', feedback = [], scoreChange = 0,
         timestamp = ''2025-01-01T12:00:00.000Z'' \<rparr>] \<and>
   fst (handleFeedback ''neutral'' someDate readyState) \<noteq> readyState"
proof -
  have h0: "\<not> feedbackGiven readyState" by (simp add: readyState_fields)
  have sw: "feedback_switch ''neutral'' = (0, [])" by (simp add: feedback_switch_def)
  have g: "feedbackGiven (fst (handleFeedback ''neutral'' someDate readyState))"
    by (rule feedbackGiven_handleFeedback)
  have hi: "history (fst (handleFeedback ''neutral'' someDate readyState)) =
     [\<lparr> concept = ''a cat'', prompt = ''A cat at dusk'', feedback = [], scoreChange = 0,
         timestamp = ''2025-01-01T12:00:00.000Z'' \<rparr>]"
    by (simp add: handleFeedback_fields(2)[OF h0] newHistoryItem_def sw readyState_fields someDate_def)
  have "fst (handleFeedback ''neutral'' someDate readyState) \<noteq> readyState"
    using g h0 by auto
  with h0 g hi show ?thesis by (simp add: readyState_fields)
qed

text \<open>
  Claim C4, amended. A label outside the switch gets delta 0 and the empty feedback text,
  and with the guard open it is recorded like any other feedback: the score is rounded to
  the nearest hundredth (so a score of whole hundredths keeps its value), an item with the
  empty text and score change 0 goes on top of the history, cut to five, and
  \<^verbatim>\<open>feedbackGiven\<close> becomes true. No mutation request and no timer follows while the
  rounded score is above 5.
\<close>

theorem unknown_label_recorded:
  assumes "type \<notin> {''blocked'', ''bad'', ''good'', ''excellent''}" and "\<not> feedbackGiven s"
  shows "fst (feedback_switch type) = 0 \<and>
         agentScore (fst (handleFeedback type d s)) = toFixed2 (agentScore s) \<and>
         (\<exists>n. agentScore (fst (handleFeedback type d s)) = of_int n / 100) \<and>
         \<bar>agentScore (fst (handleFeedback type d s)) - agentScore s\<bar> \<le> 1 / 200 \<and>
         (agentScore s = of_int k / 100 \<longrightarrow>
            agentScore (fst (handleFeedback type d s)) = agentScore s) \<and>
         history (fst (handleFeedback type d s)) =
           take 5 (\<lparr> concept = userConcept s, prompt = generatedPrompt s, feedback = [],
                     scoreChange = 0, timestamp = toISOString d \<rparr> # history s) \<and>
         feedbackGiven (fst (handleFeedback type d s)) \<and>
         (5 < toFixed2 (agentScore s) \<longrightarrow> snd (handleFeedback type d s) = [])"
proof -
  have sw: "feedback_switch type = (0, [])" by (rule feedback_switch_default[OF assms(1)])
  have sc: "agentScore (fst (handleFeedback type d s)) = toFixed2 (agentScore s)"
    by (simp add: handleFeedback_fields(1)[OF assms(2)] sw)
  have gr: "agentScore s = of_int k / 100 \<longrightarrow> toFixed2 (agentScore s) = agentScore s"
  proof
    assume e: "agentScore s = of_int k / 100"
    show "toFixed2 (agentScore s) = agentScore s" by (simp only: e toFixed2_hundredths)
  qed
  have hi: "history (fst (handleFeedback type d s)) =
           take 5 (\<lparr> concept = userConcept s, prompt = generatedPrompt s, feedback = [],
                     scoreChange = 0, timestamp = toISOString d \<rparr> # history s)"
    by (simp add: handleFeedback_fields(2)[OF assms(2)] newHistoryItem_def sw)
  have ef: "5 < toFixed2 (agentScore s) \<longrightarrow> snd (handleFeedback type d s) = []"
    by (simp add: handleFeedback_paths[OF assms(2)] sw Let_def thresholds)
  have rd: "(\<exists>n. agentScore (fst (handleFeedback type d s)) = of_int n / 100) \<and>
         \<bar>agentScore (fst (handleFeedback type d s)) - agentScore s\<bar> \<le> 1 / 200"
    unfolding sc using toFixed2_on_grid[of "agentScore s"] toFixed2_within[of "agentScore s"]
    by blast
  show ?thesis using sw sc rd gr hi ef feedbackGiven_handleFeedback[of type d s] by simp
qed

theorem unknown_label_recorded_witness:
  "''neutral'' \<notin> {''blocked'', ''bad'', ''good'', ''excellent''} \<and> \<not> feedbackGiven readyState \<and>
   agentScore (fst (handleFeedback ''neutral'' someDate readyState)) = 7 \<and>
   length (history (fst (handleFeedback ''neutral'' someDate readyState))) = 1 \<and>
   snd (handleFeedback ''neutral'' someDate readyState) = []"
proof -
  have a: "''neutral'' \<notin> {''blocked'', ''bad'', ''good'', ''excellent''}" by simp
  have h0: "\<not> feedbackGiven readyState" by (simp add: readyState_fields)
  have t: "toFixed2 7 = 7" using toFixed2_hundredths[of 700] by simp
  show ?thesis
    using a h0 unknown_label_recorded[OF a h0, where k = 700 and d = someDate]
    by (simp add: readyState_fields t)
qed

section \<open>Preconditions of prompt generation\<close>

text \<open>
  Claim C8, as stated: \<^const>\<open>generatePrompt\<close> itself refuses a call while a mutation is
  in flight. It tests the key and the concept only; \<^verbatim>\<open>optimizationState\<close> is read by the
  \<^verbatim>\<open>disabled\<close> attribute of the button and nowhere in the function. Called in the state
  that Poor at 6.2 leaves, with the panic request in flight, it sends its request, sets
  \<^verbatim>\<open>isGenerating\<close> and opens the feedback guard again.
\<close>

theorem generate_during_mutation_counterexample:
  "optimizationState busyState = Some Panic \<and> feedbackGiven busyState \<and>
   snd (generatePrompt busyState) =
     [Fetch_generator
        \<lparr> req_systemInstruction = DEFAULT_SYSTEM_INSTRUCTION, req_score = 5.7,
          req_history = [(''a cat'', ''Unsatisfactory image.'')], req_concept = ''a cat'',
          req_temperature = 0.5 \<rparr>] \<and>
   isGenerating (fst (generatePrompt busyState)) \<and>
   \<not> feedbackGiven (fst (generatePrompt busyState)) \<and>
   fst (generatePrompt busyState) \<noteq> busyState"
proof -
  have "isGenerating (fst (generatePrompt busyState))"
    by (simp add: generatePrompt_def busyState_fields)
  then have "fst (generatePrompt busyState) \<noteq> busyState"
    using busyState_fields(8) by auto
  then show ?thesis
    by (simp add: generatePrompt_def busyState_fields)
qed

text \<open>
  Claim C8, amended. \<^const>\<open>generatePrompt\<close> returns at once, with the state as it was,
  when no key is set (after an alert) or no concept is typed (silently). With both present
  it proceeds whatever \<^verbatim>\<open>optimizationState\<close> is: it sends the request, sets
  \<^verbatim>\<open>isGenerating\<close> and clears the feedback guard, and leaves score, generation, history,
  instruction, mutation log, graveyard and the shown prompt as they were.
\<close>

theorem generatePrompt_preconditions:
  "(apiKey s = [] \<longrightarrow> generatePrompt s = (s, [Alert_missing_key])) \<and>
   (apiKey s \<noteq> [] \<and> userConcept s = [] \<longrightarrow> generatePrompt s = (s, [])) \<and>
   (apiKey s \<noteq> [] \<and> userConcept s \<noteq> [] \<longrightarrow>
      (let s' = fst (generatePrompt s) in
         snd (generatePrompt s) =
           [Fetch_generator
              \<lparr> req_systemInstruction = systemInstruction s, req_score = agentScore s,
                req_history = map (\<lambda>h. (concept h, feedback h)) (history s),
                req_concept = userConcept s,
                req_temperature = (if agentScore s > 8 then 0.9 else 0.5) \<rparr>] \<and>
         isGenerating s' \<and> \<not> feedbackGiven s' \<and>
         optimizationState s' = optimizationState s \<and>
         agentScore s' = agentScore s \<and> agentGeneration s' = agentGeneration s \<and>
         history s' = history s \<and> systemInstruction s' = systemInstruction s \<and>
         mutationLog s' = mutationLog s \<and> graveyard s' = graveyard s \<and>
         generatedPrompt s' = generatedPrompt s))"
  by (simp add: generatePrompt_def Let_def)

theorem generatePrompt_preconditions_witness:
  "generatePrompt initialState = (initialState, [Alert_missing_key]) \<and>
   generatePrompt (initialState\<lparr>apiKey := ''key''\<rparr>) = (initialState\<lparr>apiKey := ''key''\<rparr>, []) \<and>
   optimizationState busyState = Some Panic \<and>
   optimizationState (fst (generatePrompt busyState)) = Some Panic \<and>
   agentScore (fst (generatePrompt busyState)) = 5.7 \<and>
   \<not> feedbackGiven (fst (generatePrompt busyState))"
proof -
  have a: "apiKey initialState = []" by (simp add: initialState_def)
  have b: "apiKey (initialState\<lparr>apiKey := ''key''\<rparr>) \<noteq> [] \<and>
           userConcept (initialState\<lparr>apiKey := ''key''\<rparr>) = []"
    by (simp add: initialState_def)
  have c: "apiKey busyState \<noteq> [] \<and> userConcept busyState \<noteq> []"
    by (simp add: busyState_fields)
  show ?thesis
    using a b c generatePrompt_preconditions[of initialState]
      generatePrompt_preconditions[of "initialState\<lparr>apiKey := ''key''\<rparr>"]
      generatePrompt_preconditions[of busyState]
    by (simp add: Let_def busyState_fields)
qed

section \<open>The instruction and the mutation log\<close>

text \<open>
  Claim C5. The request that \<^const>\<open>optimizeAgentBrain\<close> sends has captured the mode, the
  triggering score, the generation and the instruction of the moment of the call. When it
  settles with a non-empty text, the instruction becomes that text and one record goes on
  top of the mutation log in the same step, holding the captured instruction and the new
  one, the mode, the generation and the score: the instruction is the \<open>newInstruction\<close>
  of the newest record. When it settles in any other way (the request or the parsing
  throws, an error body, no text, an empty text), instruction and log stay as they were.
  In both cases \<^verbatim>\<open>optimizationState\<close> is cleared.
\<close>

theorem mutation_swap_and_log:
  "(optimizeAgentBrain r sc h m s = (s1, [Fetch_optimizer c ev temp]) \<longrightarrow>
      c = \<lparr> call_mode = m, call_score = sc, call_gen = agentGeneration r,
            call_oldInstruction = systemInstruction r \<rparr>) \<and>
   (t \<noteq> [] \<longrightarrow>
      (let s' = fst (optimizeAgentBrain_settled c (Candidates (Some t)) d s2) in
         systemInstruction s' = t \<and>
         mutationLog s' =
           \<lparr> gen = call_gen c, mode = call_mode c, score = call_score c,
             logTimestamp = toLocaleTimeString d,
             oldInstruction = call_oldInstruction c, newInstruction = t \<rparr> # mutationLog s2 \<and>
         newInstruction (hd (mutationLog s')) = systemInstruction s' \<and>
         optimizationState s' = None)) \<and>
   (out \<in> {Rejected msg, Error_body msg, Candidates None, Candidates (Some [])} \<longrightarrow>
      (let s' = fst (optimizeAgentBrain_settled c out d s2) in
         systemInstruction s' = systemInstruction s2 \<and>
         mutationLog s' = mutationLog s2 \<and>
         optimizationState s' = None))"
proof (intro conjI impI)
  assume "optimizeAgentBrain r sc h m s = (s1, [Fetch_optimizer c ev temp])"
  then show "c = \<lparr> call_mode = m, call_score = sc, call_gen = agentGeneration r,
            call_oldInstruction = systemInstruction r \<rparr>"
    by (rule optimizeAgentBrain_captures)
next
  assume "t \<noteq> []"
  then show "let s' = fst (optimizeAgentBrain_settled c (Candidates (Some t)) d s2) in
         systemInstruction s' = t \<and>
         mutationLog s' =
           \<lparr> gen = call_gen c, mode = call_mode c, score = call_score c,
             logTimestamp = toLocaleTimeString d,
             oldInstruction = call_oldInstruction c, newInstruction = t \<rparr> # mutationLog s2 \<and>
         newInstruction (hd (mutationLog s')) = systemInstruction s' \<and>
         optimizationState s' = None"
    by (simp add: optimizeAgentBrain_settled_def Let_def)
next
  assume "out \<in> {Rejected msg, Error_body msg, Candidates None, Candidates (Some [])}"
  then show "let s' = fst (optimizeAgentBrain_settled c out d s2) in
         systemInstruction s' = systemInstruction s2 \<and>
         mutationLog s' = mutationLog s2 \<and>
         optimizationState s' = None"
    by (auto simp add: optimizeAgentBrain_settled_def Let_def)
qed

text \<open>The panic request of Poor at 6.2, answered with a new instruction, and failing.\<close>

theorem mutation_swap_and_log_witness:
  "optimizeAgentBrain readyState 5.7 (history busyState) Panic readyState =
     (readyState\<lparr>optimizationState := Some Panic\<rparr>,
      [Fetch_optimizer (panicCall 5.7) [(''a cat'', ''Unsatisfactory image.'')] 0.5]) \<and>
   systemInstruction
     (fst (optimizeAgentBrain_settled (panicCall 5.7) (Candidates (Some ''Be strict.'')) someDate
        busyState)) = ''Be strict.'' \<and>
   mutationLog
     (fst (optimizeAgentBrain_settled (panicCall 5.7) (Candidates (Some ''Be strict.'')) someDate
        busyState)) =
     [\<lparr> gen = 1, mode = Panic, score = 5.7, logTimestamp = ''12:00:00 PM'',
         oldInstruction = DEFAULT_SYSTEM_INSTRUCTION, newInstruction = ''Be strict.'' \<rparr>] \<and>
   systemInstruction
     (fst (optimizeAgentBrain_settled (panicCall 5.7) (Rejected ''Failed to fetch'') someDate
        busyState)) = DEFAULT_SYSTEM_INSTRUCTION \<and>
   mutationLog
     (fst (optimizeAgentBrain_settled (panicCall 5.7) (Rejected ''Failed to fetch'') someDate
        busyState)) = []"
proof -
  have a: "optimizeAgentBrain readyState 5.7 (history busyState) Panic readyState =
     (readyState\<lparr>optimizationState := Some Panic\<rparr>,
      [Fetch_optimizer (panicCall 5.7) [(''a cat'', ''Unsatisfactory image.'')] 0.5])"
    by (simp add: optimizeAgentBrain_def Let_def busyState_fields readyState_fields panicCall_def)
  have b: "''Be strict.'' \<noteq> []" by simp
  have c: "Rejected ''Failed to fetch'' \<in>
             {Rejected ''Failed to fetch'', Error_body ''Failed to fetch'', Candidates None,
              Candidates (Some [])}"
    by simp
  show ?thesis
    using a b c
      mutation_swap_and_log[where r = readyState and sc = "5.7" and h = "history busyState"
        and m = Panic and s = readyState and ?s1.0 = "readyState\<lparr>optimizationState := Some Panic\<rparr>"
        and c = "panicCall 5.7" and ev = "[(''a cat'', ''Unsatisfactory image.'')]"
        and temp = "0.5" and t = "''Be strict.''" and d = someDate and ?s2.0 = busyState
        and out = "Rejected ''Failed to fetch''" and msg = "''Failed to fetch''"]
    by (simp add: Let_def busyState_fields panicCall_def someDate_def)
qed

section \<open>Feedback on a failed generation\<close>

text \<open>
  Claim C10. \<^const>\<open>generatePrompt\<close> opens the feedback guard before it sends the request,
  and no way of settling closes it. When the request fails (it throws, or the body has an
  \<^verbatim>\<open>error\<close> member), the text \<open>API Error: \<close> followed by the message (or by
  \<open>Unknown error\<close>) becomes the shown prompt, and a feedback is then accepted in full: the
  score moves by the delta of the label and the history records the error text as the
  prompt.
\<close>

theorem failed_generation_accepts_feedback:
  assumes "apiKey s \<noteq> []" and "userConcept s \<noteq> []"
    and "out = Rejected msg \<or> out = Error_body msg"
  shows "let s1 = fst (generatePrompt s);
             s2 = fst (generatePrompt_settled out s1);
             shown = ''API Error: '' @ (if msg = [] then ''Unknown error'' else msg)
         in \<not> feedbackGiven s1 \<and>
            (\<forall>out'. \<not> feedbackGiven (fst (generatePrompt_settled out' s1))) \<and>
            generatedPrompt s2 = shown \<and>
            agentScore (fst (handleFeedback type d s2)) =
              toFixed2 (agentScore s + fst (feedback_switch type)) \<and>
            history (fst (handleFeedback type d s2)) =
              take 5 (\<lparr> concept = userConcept s, prompt = shown,
                        feedback = snd (feedback_switch type),
                        scoreChange = fst (feedback_switch type),
                        timestamp = toISOString d \<rparr> # history s) \<and>
            feedbackGiven (fst (handleFeedback type d s2))"
proof -
  define s1 where "s1 = fst (generatePrompt s)"
  define s2 where "s2 = fst (generatePrompt_settled out s1)"
  define shown where "shown = ''API Error: '' @ (if msg = [] then ''Unknown error'' else msg)"
  have f1: "\<not> feedbackGiven s1" "agentScore s1 = agentScore s" "history s1 = history s"
    "userConcept s1 = userConcept s"
    using assms(1,2) by (simp_all add: s1_def generatePrompt_def)
  have all: "\<not> feedbackGiven (fst (generatePrompt_settled out' s1))" for out'
    using f1(1) by (cases out') (simp_all add: generatePrompt_settled_def)
  have f2: "generatedPrompt s2 = shown" "agentScore s2 = agentScore s" "history s2 = history s"
    "userConcept s2 = userConcept s"
    using assms(3) f1 by (auto simp add: s2_def shown_def generatePrompt_settled_def js_or_def)
  have g2: "\<not> feedbackGiven s2" unfolding s2_def by (rule all)
  show ?thesis
    unfolding Let_def s1_def[symmetric] s2_def[symmetric] shown_def[symmetric]
    using f1(1) all f2(1)
    by (simp add: handleFeedback_fields[OF g2] newHistoryItem_def f2)
qed

text \<open>After Good at 7.0 the guard is closed; a failing generation and Poor give 6.8 and
  a history item whose prompt is the error text.\<close>

theorem failed_generation_accepts_feedback_witness:
  "feedbackGiven judgedState \<and>
   generatedPrompt (run [Click_generate, Generator_settled (Rejected ''Failed to fetch'')] judgedState)
     = ''API Error: Failed to fetch'' \<and>
   agentScore
     (run [Click_generate, Generator_settled (Rejected ''Failed to fetch''),
           Click_feedback ''bad'' someDate] judgedState) = 6.8 \<and>
   history
     (run [Click_generate, Generator_settled (Rejected ''Failed to fetch''),
           Click_feedback ''bad'' someDate] judgedState) =
     [\<lparr> concept = ''a cat'', prompt = ''API Error: Failed to fetch'',
         feedback = ''Unsatisfactory image.'', scoreChange = - 0.5,
         timestamp = ''2025-01-01T12:00:00.000Z'' \<rparr>,
      \<lparr> concept = ''a cat'', prompt = ''A cat at dusk'', feedback = ''Satisfactory image.'',
         scoreChange = 0.3, timestamp = ''2025-01-01T12:00:00.000Z'' \<rparr>]"
proof -
  have a: "apiKey judgedState \<noteq> []" "userConcept judgedState \<noteq> []"
    by (simp_all add: judgedState_fields)
  have o: "Rejected ''Failed to fetch'' = Rejected ''Failed to fetch'' \<or>
           Rejected ''Failed to fetch'' = Error_body ''Failed to fetch''"
    by simp
  show ?thesis
    using failed_generation_accepts_feedback[OF a o, of "''bad''" someDate]
    by (simp add: Let_def judgedState_fields feedback_switch_bad toFixed2_def someDate_def)
qed

section \<open>The history buffer\<close>

text \<open>
  Claim C6, as stated: after any sequence of feedback applications the buffer has
  min(5, total number of feedbacks) entries. The respawn that follows a death empties the
  buffer. On a first visit, four prompts judged Poor bring the score to 5.0; the fourth
  Poor sets the respawn timer, and when it has fired the buffer is empty, after four
  accepted feedbacks.
\<close>

theorem history_total_count_counterexample:
  "history initialState = [] \<and>
   totalFeedbackCount fourPoorThenRespawn initialState = 4 \<and>
   history (run fourPoorThenRespawn initialState) = [] \<and>
   snd (handleFeedback ''bad'' someDate (run threePoorAndPrompt initialState)) =
     [SetTimeout_respawn 1 5.0 500] \<and>
   agentGeneration (run fourPoorThenRespawn initialState) = 2 \<and>
   length (history (run fourPoorThenRespawn initialState)) \<noteq>
     min 5 (totalFeedbackCount fourPoorThenRespawn initialState)"
proof -
  have a: "totalFeedbackCount fourPoorThenRespawn initialState = 4" by code_simp
  have b: "history (run fourPoorThenRespawn initialState) = []" by code_simp
  have c: "agentGeneration (run fourPoorThenRespawn initialState) = 2" by code_simp
  have d: "snd (handleFeedback ''bad'' someDate (run threePoorAndPrompt initialState)) =
     [SetTimeout_respawn 1 5.0 500]"
    by code_simp
  show ?thesis unfolding a b c d by (simp add: initialState_def)
qed

text \<open>
  Claim C6, amended. In every run that starts with an empty buffer, the buffer is the list
  of the items of the feedbacks accepted since the last respawn (since the start, if there
  was none), newest first, cut to its first five: its length is the smaller of 5 and the
  number of those feedbacks, it never exceeds 5, and the sixth-newest item is the one that
  goes.
\<close>

theorem history_holds_last_five:
  assumes "history s = []"
  shows "history (run es s) = take 5 (acceptedFeedback es s []) \<and>
         length (history (run es s)) = min 5 (length (acceptedFeedback es s [])) \<and>
         length (history (run es s)) \<le> 5"
proof -
  have "history s = take 5 []" using assms by simp
  then have "history (run es s) = take 5 (acceptedFeedback es s [])" by (rule history_run)
  then show ?thesis by (simp add: min.commute)
qed

text \<open>Six accepted feedbacks, Good and Poor in turn: the buffer holds the five newest,
  the newest first, and the first Good is gone.\<close>

theorem history_holds_last_five_witness:
  "history initialState = [] \<and>
   length (acceptedFeedback sixRounds initialState []) = 6 \<and>
   length (history (run sixRounds initialState)) = 5 \<and>
   map scoreChange (acceptedFeedback sixRounds initialState []) = [- 0.5, 0.3, - 0.5, 0.3, - 0.5, 0.3] \<and>
   map scoreChange (history (run sixRounds initialState)) = [- 0.5, 0.3, - 0.5, 0.3, - 0.5]"
proof -
  have a: "history initialState = []" by (simp add: initialState_def)
  have b: "map scoreChange (acceptedFeedback sixRounds initialState []) =
             [- 0.5, 0.3, - 0.5, 0.3, - 0.5, 0.3]"
    by code_simp
  have c: "length (acceptedFeedback sixRounds initialState []) = 6"
    using arg_cong[OF b, of length] by simp
  have "map scoreChange (history (run sixRounds initialState)) =
          take 5 (map scoreChange (acceptedFeedback sixRounds initialState []))"
    using history_holds_last_five[OF a, of sixRounds] by (simp add: take_map)
  then have d: "map scoreChange (history (run sixRounds initialState)) = [- 0.5, 0.3, - 0.5, 0.3, - 0.5]"
    unfolding b by simp
  show ?thesis using a b c d history_holds_last_five[OF a, of sixRounds] by simp
qed

section \<open>The graveyard\<close>

text \<open>
  Claim C7, as stated: the grave marker's cause of death is the feedback text of the newest
  history entry, and its best prompt is the prompt of the newest entry with a positive
  delta, or the sentinel \<open>none\<close> when the window has no such entry. The source writes
  \<^verbatim>\<open>finalHistory[0]?.feedback || "Unknown"\<close> and
  \<^verbatim>\<open>finalHistory.find(h => h.scoreChange > 0)?.prompt || "None"\<close>. After four Poor on a
  first visit the window has no positive entry and the best prompt is \<open>None\<close>, not
  \<open>none\<close>. When the death is caused by a label outside the switch, the newest entry has
  the empty text and the cause is \<open>Unknown\<close>. When the newest positive entry has the
  empty prompt, the best prompt is \<open>None\<close> although a positive entry exists.
\<close>

theorem grave_fields_counterexample:
  "find (\<lambda>h. 0 < scoreChange h) (history (run fourPoor initialState)) = None \<and>
   bestPrompt (hd (graveyard (run fourPoor initialState))) = ''None'' \<and>
   bestPrompt (hd (graveyard (run fourPoor initialState))) \<noteq> ''none'' \<and>
   feedback (hd (history (run poorThenNeutral initialState))) = [] \<and>
   causeOfDeath (hd (graveyard (run poorThenNeutral initialState))) = ''Unknown'' \<and>
   find (\<lambda>h. 0 < scoreChange h) [newHistoryItem readyState ''bad'' someDate, unpromptedGood] =
     Some unpromptedGood \<and>
   prompt unpromptedGood = [] \<and>
   bestPrompt
     (hd (graveyard
        (fst (handleAgentDeath readyState 4.8
                [newHistoryItem readyState ''bad'' someDate, unpromptedGood] someDate
                readyState)))) = ''None''"
proof -
  have a: "find (\<lambda>h. 0 < scoreChange h) (history (run fourPoor initialState)) = None"
    by code_simp
  have b: "bestPrompt (hd (graveyard (run fourPoor initialState))) = ''None''"
    by code_simp
  have c: "feedback (hd (history (run poorThenNeutral initialState))) = []"
    by code_simp
  have d: "causeOfDeath (hd (graveyard (run poorThenNeutral initialState))) = ''Unknown''"
    by code_simp
  have e: "find (\<lambda>h. 0 < scoreChange h)
             [newHistoryItem readyState ''bad'' someDate, unpromptedGood] = Some unpromptedGood"
    by (simp add: newHistoryItem_def feedback_switch_bad unpromptedGood_def)
  have f: "prompt unpromptedGood = []" by (simp add: unpromptedGood_def)
  have g: "bestPrompt
     (hd (graveyard
        (fst (handleAgentDeath readyState 4.8
                [newHistoryItem readyState ''bad'' someDate, unpromptedGood] someDate
                readyState)))) = ''None''"
    by (simp add: handleAgentDeath_def js_or_def newHistoryItem_def feedback_switch_bad
        unpromptedGood_def)
  show ?thesis unfolding a b c d e f g by simp
qed

text \<open>
  Claim C7, amended. Each death puts exactly one marker on top of the graveyard. Its
  cause of death is the feedback text of the newest history entry, or \<open>Unknown\<close> when
  that text is empty (or the history is); its best prompt is the prompt of the newest
  entry with a positive delta, or \<open>None\<close> when there is no such entry in the window or
  its prompt is empty. A feedback that does not kill, the respawn and every other event
  leave the graveyard as it is: in every run the graveyard at the start is a suffix of the
  graveyard at the end.
\<close>

theorem death_writes_one_grave:
  "graveyard (fst (handleAgentDeath r sc h d s)) =
     \<lparr> generation = agentGeneration r, finalScore = sc,
       causeOfDeath =
         (case h of [] \<Rightarrow> ''Unknown''
          | x # _ \<Rightarrow> if feedback x = [] then ''Unknown'' else feedback x),
       livedAt = toLocaleDateString d,
       bestPrompt =
         (case find (\<lambda>x. 0 < scoreChange x) h of
            None \<Rightarrow> ''None''
          | Some x \<Rightarrow> if prompt x = [] then ''None'' else prompt x),
       finalInstruction = systemInstruction r \<rparr> # graveyard r \<and>
   (\<not> feedbackGiven s \<and> toFixed2 (agentScore s + fst (feedback_switch type)) \<le> 5 \<longrightarrow>
      handleFeedback type d s =
        handleAgentDeath s (toFixed2 (agentScore s + fst (feedback_switch type)))
          (take 5 (newHistoryItem s type d # history s)) d
          (s\<lparr> agentScore := toFixed2 (agentScore s + fst (feedback_switch type)),
              history := take 5 (newHistoryItem s type d # history s),
              feedbackGiven := True \<rparr>) \<and>
      length (graveyard (fst (handleFeedback type d s))) = length (graveyard s) + 1 \<and>
      causeOfDeath (hd (graveyard (fst (handleFeedback type d s)))) =
        (if snd (feedback_switch type) = [] then ''Unknown'' else snd (feedback_switch type))) \<and>
   (feedbackGiven s \<or> 5 < toFixed2 (agentScore s + fst (feedback_switch type)) \<longrightarrow>
      graveyard (fst (handleFeedback type d s)) = graveyard s) \<and>
   graveyard (fst (handleAgentDeath_timeout g sc' s)) = graveyard s \<and>
   suffix (graveyard s) (graveyard (run es s))"
proof (intro conjI impI)
  show "graveyard (fst (handleAgentDeath r sc h d s)) =
     \<lparr> generation = agentGeneration r, finalScore = sc,
       causeOfDeath =
         (case h of [] \<Rightarrow> ''Unknown''
          | x # _ \<Rightarrow> if feedback x = [] then ''Unknown'' else feedback x),
       livedAt = toLocaleDateString d,
       bestPrompt =
         (case find (\<lambda>x. 0 < scoreChange x) h of
            None \<Rightarrow> ''None''
          | Some x \<Rightarrow> if prompt x = [] then ''None'' else prompt x),
       finalInstruction = systemInstruction r \<rparr> # graveyard r"
    by (simp add: handleAgentDeath_def js_or_def Let_def split: list.splits option.splits)
next
  assume a: "\<not> feedbackGiven s \<and> toFixed2 (agentScore s + fst (feedback_switch type)) \<le> 5"
  then show "handleFeedback type d s =
        handleAgentDeath s (toFixed2 (agentScore s + fst (feedback_switch type)))
          (take 5 (newHistoryItem s type d # history s)) d
          (s\<lparr> agentScore := toFixed2 (agentScore s + fst (feedback_switch type)),
              history := take 5 (newHistoryItem s type d # history s),
              feedbackGiven := True \<rparr>)"
    by (simp add: handleFeedback_paths Let_def thresholds)
  show "length (graveyard (fst (handleFeedback type d s))) = length (graveyard s) + 1"
    using a by (simp add: graveyard_handleFeedback)
  show "causeOfDeath (hd (graveyard (fst (handleFeedback type d s)))) =
        (if snd (feedback_switch type) = [] then ''Unknown'' else snd (feedback_switch type))"
    using a by (simp add: graveyard_handleFeedback js_or_def)
next
  assume "feedbackGiven s \<or> 5 < toFixed2 (agentScore s + fst (feedback_switch type))"
  then show "graveyard (fst (handleFeedback type d s)) = graveyard s"
    by (auto simp add: graveyard_handleFeedback)
next
  show "graveyard (fst (handleAgentDeath_timeout g sc' s)) = graveyard s"
    by (rule graveyard_other_steps)
next
  show "suffix (graveyard s) (graveyard (run es s))" by (rule graveyard_run)
qed

text \<open>The fourth Poor of a first visit kills at 5.0 and names its own text as the cause;
  the first Poor, at 6.5, leaves the graveyard alone.\<close>

theorem death_writes_one_grave_witness:
  "\<not> feedbackGiven (run threePoorAndPrompt initialState) \<and>
   agentScore (run threePoorAndPrompt initialState) = 5.5 \<and>
   length (graveyard (fst (handleFeedback ''bad'' someDate (run threePoorAndPrompt initialState)))) =
     length (graveyard (run threePoorAndPrompt initialState)) + 1 \<and>
   causeOfDeath
     (hd (graveyard (fst (handleFeedback ''bad'' someDate (run threePoorAndPrompt initialState))))) =
     ''Unsatisfactory image.'' \<and>
   graveyard (fst (handleFeedback ''bad'' someDate readyState)) = graveyard readyState"
proof -
  define S where "S = run threePoorAndPrompt initialState"
  have a: "\<not> feedbackGiven S" unfolding S_def by code_simp
  have b: "agentScore S = 5.5" unfolding S_def by code_simp
  have c: "\<not> feedbackGiven S \<and> toFixed2 (agentScore S + fst (feedback_switch ''bad'')) \<le> 5"
    using a by (simp add: b feedback_switch_bad toFixed2_def)
  have d: "feedbackGiven readyState \<or>
           5 < toFixed2 (agentScore readyState + fst (feedback_switch ''bad''))"
    by (simp add: readyState_fields feedback_switch_bad toFixed2_def)
  have t1: "length (graveyard (fst (handleFeedback ''bad'' someDate S))) = length (graveyard S) + 1 \<and>
      causeOfDeath (hd (graveyard (fst (handleFeedback ''bad'' someDate S)))) =
        (if snd (feedback_switch ''bad'') = [] then ''Unknown'' else snd (feedback_switch ''bad''))"
    using c death_writes_one_grave[where s = S and type = "''bad''" and d = someDate] by blast
  have t2: "graveyard (fst (handleFeedback ''bad'' someDate readyState)) = graveyard readyState"
    using d death_writes_one_grave[where s = readyState and type = "''bad''" and d = someDate]
    by blast
  show ?thesis
    unfolding S_def[symmetric]
    using a b t1 t2 by (simp add: feedback_switch_bad)
qed


end
